theory Spec2Isabelle
  imports Main "HOL-Library.Sublist" "HOL-Library.AList"
begin

section \<open>Regular expressions of the converter\<close>

text \<open>
  \<^verbatim>\<open>convert_to_claudeai.py\<close> uses Python's \<^verbatim>\<open>re\<close> module with patterns that are
  sequences of single-character atoms, each with at most one quantifier: a literal
  character, \<^verbatim>\<open>\w\<close>, a negated one-character set such as \<^verbatim>\<open>[^)]\<close>, and \<^verbatim>\<open>.\<close>
  (under \<^verbatim>\<open>re.DOTALL\<close>, so it matches every character), quantified by nothing,
  \<^verbatim>\<open>*\<close>, \<^verbatim>\<open>+\<close> (both greedy) or \<^verbatim>\<open>*?\<close> (lazy). The matcher below is the
  backtracking matcher of \<^verbatim>\<open>re\<close> on that fragment: it returns the length of the
  first match found in the engine's order of preference.
  Characters are the 8-bit characters of HOL; \<^verbatim>\<open>\w\<close> is taken on ASCII.
\<close>

datatype cls = Lit char | Word | NotChar char | AnyChar

datatype quant = One | Star | Plus | LazyStar

type_synonym regex = "(cls \<times> quant) list"

definition is_word :: "char \<Rightarrow> bool" where
  "is_word c =
     (let n = (of_char c :: nat)
      in (48 \<le> n \<and> n \<le> 57) \<or> (65 \<le> n \<and> n \<le> 90) \<or> (97 \<le> n \<and> n \<le> 122) \<or> n = 95)"

fun cls_ok :: "cls \<Rightarrow> char \<Rightarrow> bool" where
  "cls_ok (Lit a) c = (c = a)"
| "cls_ok Word c = is_word c"
| "cls_ok (NotChar a) c = (c \<noteq> a)"
| "cls_ok AnyChar c = True"

fun rmatch :: "regex \<Rightarrow> string \<Rightarrow> nat option" where
  "rmatch [] s = Some 0"
| "rmatch ((c, One) # r) s =
     (case s of [] \<Rightarrow> None
      | x # xs \<Rightarrow> if cls_ok c x then map_option Suc (rmatch r xs) else None)"
| "rmatch ((c, Star) # r) s =
     (case s of [] \<Rightarrow> rmatch r []
      | x # xs \<Rightarrow>
          if cls_ok c x
          then (case rmatch ((c, Star) # r) xs of
                  Some n \<Rightarrow> Some (Suc n)
                | None \<Rightarrow> rmatch r (x # xs))
          else rmatch r (x # xs))"
| "rmatch ((c, Plus) # r) s =
     (case s of [] \<Rightarrow> None
      | x # xs \<Rightarrow> if cls_ok c x then map_option Suc (rmatch ((c, Star) # r) xs) else None)"
| "rmatch ((c, LazyStar) # r) s =
     (case rmatch r s of
        Some n \<Rightarrow> Some n
      | None \<Rightarrow>
          (case s of [] \<Rightarrow> None
           | x # xs \<Rightarrow>
               if cls_ok c x then map_option Suc (rmatch ((c, LazyStar) # r) xs) else None))"

lemma rmatch_le: "rmatch r s = Some n \<Longrightarrow> n \<le> length s"
proof (induction r s arbitrary: n rule: rmatch.induct)
  case (1 s)
  then show ?case by simp
next
  case (2 c r s)
  then show ?case by (cases s) (auto split: if_splits)
next
  case (3 c r s)
  then show ?case by (cases s) (fastforce split: if_splits option.splits)+
next
  case (4 c r s)
  then show ?case by (cases s) (auto split: if_splits)
next
  case (5 c r s)
  then show ?case by (cases s) (fastforce split: if_splits option.splits)+
qed

text \<open>
  \<^verbatim>\<open>len(re.findall(pattern, s, re.DOTALL))\<close>: the number of non-overlapping matches,
  scanning from the left. After an empty match the scan moves on by one character.
\<close>

function re_count :: "regex \<Rightarrow> string \<Rightarrow> nat" where
  "re_count r s =
     (case rmatch r s of
        Some n \<Rightarrow>
          if n = 0 then (case s of [] \<Rightarrow> 1 | x # xs \<Rightarrow> Suc (re_count r xs))
          else Suc (re_count r (drop n s))
      | None \<Rightarrow> (case s of [] \<Rightarrow> 0 | x # xs \<Rightarrow> re_count r xs))"
  by pat_completeness auto
termination
  by (relation "measure (\<lambda>(r, s). length s)") (auto dest: rmatch_le)

text \<open>\<^verbatim>\<open>re.sub(pattern, replacement, s, flags=re.DOTALL)\<close> with a literal replacement.\<close>

function re_sub :: "regex \<Rightarrow> string \<Rightarrow> string \<Rightarrow> string" where
  "re_sub r repl s =
     (case rmatch r s of
        Some n \<Rightarrow>
          if n = 0 then (case s of [] \<Rightarrow> repl | x # xs \<Rightarrow> repl @ x # re_sub r repl xs)
          else repl @ re_sub r repl (drop n s)
      | None \<Rightarrow> (case s of [] \<Rightarrow> [] | x # xs \<Rightarrow> x # re_sub r repl xs))"
  by pat_completeness auto
termination
  by (relation "measure (\<lambda>(r, repl, s). length s)") (auto dest: rmatch_le)

declare re_count.simps [simp del] re_sub.simps [simp del]

fun lits :: "string \<Rightarrow> regex" where
  "lits [] = []"
| "lits (c # cs) = (Lit c, One) # lits cs"


section \<open>Data of a conversion run\<close>

text \<open>
  A path is the list of its components below the root; \<open>[]\<close> is the root itself.
  \<^verbatim>\<open>Path.name\<close> is the last component, the empty string for the root.
\<close>

type_synonym path = "string list"

definition path_name :: "path \<Rightarrow> string" where
  "path_name p = (if p = [] then [] else last p)"

text \<open>\<^verbatim>\<open>str(path)\<close> of a relative path: the components joined by the separator.\<close>

fun path_str :: "path \<Rightarrow> string" where
  "path_str [] = []"
| "path_str [a] = a"
| "path_str (a # b # p) = a @ CHR ''/'' # path_str (b # p)"

text \<open>\<^verbatim>\<open>base / name\<close>: joining with the empty name gives the base back.\<close>

definition join :: "path \<Rightarrow> string \<Rightarrow> path" where
  "join base name = (if name = [] then base else base @ [name])"

datatype exn =
    NotADirectoryError path
  | IsADirectoryError path
  | FileExistsError path
  | FileNotFoundError path
  | YAMLError string
  | TypeError

text \<open>
  The entries of \<^verbatim>\<open>self.changes\<close> and \<^verbatim>\<open>self.warnings\<close> are formatted strings; each
  constructor stands for one format string and carries the values formatted into it:
  \<^item> \<open>RemovedField f v\<close>: \<^verbatim>\<open>f"Removed YAML field: {field}={removed_value}"\<close>
  \<^item> \<open>Replaced n p\<close>: \<^verbatim>\<open>f"Replaced {len(matches)} instances of pattern: {pattern[:30]}..."\<close>
  \<^item> \<open>Bundled k sz\<close>: \<^verbatim>\<open>f"Bundled {files_copied} reference files ({total_size / 1024:.1f}KB)"\<close>
  \<^item> \<open>CreatedZip name sz\<close>: \<^verbatim>\<open>f"Created zip: {zip_name} ({zip_size / 1024:.1f}KB)"\<close>
  \<^item> \<open>Found n d\<close>: \<^verbatim>\<open>f"Found {len(matches)} {description} - may need manual review"\<close>
  \<^item> \<open>TooLarge sz p\<close>: \<^verbatim>\<open>f"File too large ({file_size / 1024 / 1024:.1f}MB): {rel_path}"\<close>
  \<^item> \<open>TotalSize sz\<close>: \<^verbatim>\<open>f"Total size ({total_size / 1024 / 1024:.1f}MB) exceeds recommended 10MB"\<close>
\<close>

datatype 'v change =
    RemovedField string 'v
  | Replaced nat string
  | Bundled nat nat
  | CreatedZip string nat

datatype warning =
    Found nat string
  | TooLarge nat path
  | TotalSize nat

datatype logmsg =
    LogConverted
  | LogRemovedField string
  | LogNoReferences
  | LogExcluded path
  | LogBundled path
  | LogWouldCreate path

text \<open>What the program prints, one constructor for each \<^verbatim>\<open>print\<close> of the source.\<close>

datatype 'v line =
    PConverting string
  | PErrNotExist path
  | PErrNotDir path
  | PErrNoSkillMd path
  | PErrConversion exn
  | PLog logmsg
  | PWarning warning
  | PChangesHeader
  | PChange "'v change"
  | PWarningsHeader nat
  | PWarn warning
  | POutput path
  | PUpload
  | PSuccess
  | PFailed

datatype node = Dir | File string

type_synonym filesys = "(path \<times> node) list"

record config =
  skill_path :: path
  output_dir :: path
  verbose :: bool
  dry_run :: bool
  keep_tools :: bool
  inline_refs :: bool

definition skill_name :: "config \<Rightarrow> string" where
  "skill_name cfg = path_name (skill_path cfg)"

text \<open>
  The state of a run: the two lists of the converter object, the lines printed so far and
  the file system.
\<close>

record 'v state =
  changes :: "'v change list"
  warnings :: "warning list"
  stdout :: "'v line list"
  fs :: filesys

definition print :: "'v line \<Rightarrow> 'v state \<Rightarrow> 'v state" where
  "print l st = st\<lparr>stdout := stdout st @ [l]\<rparr>"

definition log :: "config \<Rightarrow> logmsg \<Rightarrow> 'v state \<Rightarrow> 'v state" where
  "log cfg m st = (if verbose cfg then print (PLog m) st else st)"

definition warn :: "config \<Rightarrow> warning \<Rightarrow> 'v state \<Rightarrow> 'v state" where
  "warn cfg w st =
     (let st1 = st\<lparr>warnings := warnings st @ [w]\<rparr>
      in if verbose cfg then print (PWarning w) st1 else st1)"

definition add_change :: "'v change \<Rightarrow> 'v state \<Rightarrow> 'v state" where
  "add_change c st = st\<lparr>changes := changes st @ [c]\<rparr>"

section \<open>Header cleaning\<close>

definition REMOVE_YAML_FIELDS :: "string list" where
  "REMOVE_YAML_FIELDS = [''allowed-tools'']"

text \<open>
  A header is the dictionary loaded from the YAML block, kept as an association list;
  \<^verbatim>\<open>field in cleaned\<close> is a lookup and \<^verbatim>\<open>cleaned.pop(field)\<close> deletes the key.
\<close>

fun remove_fields ::
  "config \<Rightarrow> string list \<Rightarrow> (string \<times> 'v) list \<Rightarrow> 'v state \<Rightarrow> (string \<times> 'v) list \<times> 'v state"
where
  "remove_fields cfg [] cleaned st = (cleaned, st)"
| "remove_fields cfg (field # more_fields) cleaned st =
     (case map_of cleaned field of
        Some removed_value \<Rightarrow>
          if \<not> keep_tools cfg
          then remove_fields cfg more_fields (AList.delete field cleaned)
                 (log cfg (LogRemovedField field) (add_change (RemovedField field removed_value) st))
          else remove_fields cfg more_fields cleaned st
      | None \<Rightarrow> remove_fields cfg more_fields cleaned st)"

definition clean_frontmatter ::
  "config \<Rightarrow> (string \<times> 'v) list \<Rightarrow> 'v state \<Rightarrow> (string \<times> 'v) list \<times> 'v state"
where
  "clean_frontmatter cfg frontmatter st = remove_fields cfg REMOVE_YAML_FIELDS frontmatter st"


section \<open>Body cleaning\<close>

text \<open>
  Each removal pattern is kept with its source text (the change log quotes its first 30
  characters), its compiled form and its replacement. \<open>CHR 0x5C\<close> is the backslash and
  \<open>CHR 0x0A\<close> the line feed.
\<close>

definition mcp_name :: regex where
  "mcp_name = lits ''mcp__'' @ [(Word, Plus)] @ lits ''__'' @ [(Word, Plus)]"

definition mcp_call :: regex where
  "mcp_call = mcp_name @ lits ''('' @ [(NotChar (CHR '')''), Star)] @ lits '')''"

definition mcp_call_quoted :: regex where
  "mcp_call_quoted = lits ''`'' @ mcp_call @ lits ''`''"

definition bash_call :: regex where
  "bash_call = lits ''Bash('' @ [(NotChar (CHR '')''), Plus)] @ lits '')''"

definition mcp_name_src :: string where
  "mcp_name_src = ''mcp__'' @ [CHR 0x5C] @ ''w+__'' @ [CHR 0x5C] @ ''w+''"

definition mcp_call_src :: string where
  "mcp_call_src = mcp_name_src @ [CHR 0x5C] @ ''([^)]*'' @ [CHR 0x5C] @ '')''"

definition CC_PATTERNS :: "(string \<times> regex \<times> string) list" where
  "CC_PATTERNS =
     [(''`'' @ mcp_call_src @ ''`'', mcp_call_quoted, ''[MCP tool reference removed]''),
      (mcp_call_src, mcp_call, ''[MCP tool reference removed]''),
      (mcp_name_src, mcp_name, ''[MCP tool]''),
      (''Bash'' @ [CHR 0x5C] @ ''([^)]+'' @ [CHR 0x5C] @ '')'', bash_call, ''[CLI command]'')]"

definition WARNING_PATTERNS :: "(regex \<times> string) list" where
  "WARNING_PATTERNS =
     [(lits ''scripts/'' @ [(Word, Plus)] @ lits ''.py'', ''Python script reference''),
      (lits ''scripts/'' @ [(Word, Plus)] @ lits ''.sh'', ''Shell script reference''),
      (lits (''```bash'' @ [CHR 0x0A]) @ [(AnyChar, LazyStar)] @ lits ''```'', ''Bash code block''),
      (lits (''```python'' @ [CHR 0x0A]) @ [(AnyChar, LazyStar)] @ lits ''```'',
       ''Python code block'')]"

fun apply_removals ::
  "(string \<times> regex \<times> string) list \<Rightarrow> string \<Rightarrow> 'v state \<Rightarrow> string \<times> 'v state"
where
  "apply_removals [] cleaned st = (cleaned, st)"
| "apply_removals ((src, pattern, replacement) # ps) cleaned st =
     (let matches = re_count pattern cleaned
      in if matches \<noteq> 0
         then apply_removals ps (re_sub pattern replacement cleaned)
                (add_change (Replaced matches (take 30 src)) st)
         else apply_removals ps cleaned st)"

fun scan_warnings :: "config \<Rightarrow> (regex \<times> string) list \<Rightarrow> string \<Rightarrow> 'v state \<Rightarrow> 'v state" where
  "scan_warnings cfg [] cleaned st = st"
| "scan_warnings cfg ((pattern, description) # ps) cleaned st =
     (let matches = re_count pattern cleaned
      in if matches \<noteq> 0
         then scan_warnings cfg ps cleaned (warn cfg (Found matches description) st)
         else scan_warnings cfg ps cleaned st)"

definition clean_content :: "config \<Rightarrow> string \<Rightarrow> 'v state \<Rightarrow> string \<times> 'v state" where
  "clean_content cfg content st =
     (let (cleaned, st1) = apply_removals CC_PATTERNS content st
      in (cleaned, scan_warnings cfg WARNING_PATTERNS cleaned st1))"

section \<open>The file system\<close>

text \<open>
  The file system is an association list from absolute paths to nodes; the root always
  exists and is a directory. Every operation is the \<^verbatim>\<open>pathlib\<close>/\<^verbatim>\<open>shutil\<close> call of the
  same name, with its failure as a value. The size of a file is the length of its
  content.
\<close>

definition node_at :: "filesys \<Rightarrow> path \<Rightarrow> node option" where
  "node_at fsys p = (if p = [] then Some Dir else map_of fsys p)"

definition path_exists :: "filesys \<Rightarrow> path \<Rightarrow> bool" where
  "path_exists fsys p = (node_at fsys p \<noteq> None)"

definition is_dir :: "filesys \<Rightarrow> path \<Rightarrow> bool" where
  "is_dir fsys p = (node_at fsys p = Some Dir)"

definition rmtree :: "filesys \<Rightarrow> path \<Rightarrow> exn + filesys" where
  "rmtree fsys p =
     (if is_dir fsys p then Inr (filter (\<lambda>(q, n). \<not> prefix p q) fsys)
      else Inl (NotADirectoryError p))"

text \<open>
  \<^verbatim>\<open>mkdir(parents=True)\<close>: walks down from the root, creating what is missing; a file on
  the way is an error.
\<close>

fun ensure_dirs :: "filesys \<Rightarrow> path \<Rightarrow> string list \<Rightarrow> exn + filesys" where
  "ensure_dirs fsys base [] = Inr fsys"
| "ensure_dirs fsys base (c # cs) =
     (case node_at fsys (base @ [c]) of
        None \<Rightarrow> ensure_dirs (fsys @ [(base @ [c], Dir)]) (base @ [c]) cs
      | Some Dir \<Rightarrow> ensure_dirs fsys (base @ [c]) cs
      | Some (File content) \<Rightarrow> Inl (NotADirectoryError (base @ [c])))"

definition mkdir_parents :: "bool \<Rightarrow> filesys \<Rightarrow> path \<Rightarrow> exn + filesys" where
  "mkdir_parents exist_ok fsys p =
     (case node_at fsys p of
        Some Dir \<Rightarrow> if exist_ok then Inr fsys else Inl (FileExistsError p)
      | Some (File content) \<Rightarrow> Inl (FileExistsError p)
      | None \<Rightarrow> ensure_dirs fsys [] p)"

definition read_text :: "filesys \<Rightarrow> path \<Rightarrow> exn + string" where
  "read_text fsys p =
     (case node_at fsys p of
        Some (File content) \<Rightarrow> Inr content
      | Some Dir \<Rightarrow> Inl (IsADirectoryError p)
      | None \<Rightarrow> Inl (FileNotFoundError p))"

definition write_file :: "filesys \<Rightarrow> path \<Rightarrow> string \<Rightarrow> exn + filesys" where
  "write_file fsys p content =
     (if p = [] \<or> node_at fsys p = Some Dir then Inl (IsADirectoryError p)
      else if \<not> is_dir fsys (butlast p) then Inl (FileNotFoundError p)
      else Inr (AList.update p (File content) fsys))"

definition unlink :: "filesys \<Rightarrow> path \<Rightarrow> exn + filesys" where
  "unlink fsys p =
     (case node_at fsys p of
        Some (File content) \<Rightarrow> Inr (AList.delete p fsys)
      | Some Dir \<Rightarrow> Inl (IsADirectoryError p)
      | None \<Rightarrow> Inl (FileNotFoundError p))"

text \<open>
  \<^verbatim>\<open>[f for f in d.rglob("*") if f.is_file()]\<close> with each file's content, in the order
  of the listing.
\<close>

fun files_under :: "path \<Rightarrow> filesys \<Rightarrow> (path \<times> string) list" where
  "files_under d [] = []"
| "files_under d ((q, Dir) # others) = files_under d others"
| "files_under d ((q, File content) # others) =
     (if strict_prefix d q then (q, content) # files_under d others else files_under d others)"

text \<open>\<^verbatim>\<open>p.relative_to(base)\<close> for a path below \<open>base\<close>.\<close>

definition relative_to :: "path \<Rightarrow> path \<Rightarrow> path" where
  "relative_to base p = drop (length base) p"

section \<open>Validation\<close>

definition validate_skill :: "config \<Rightarrow> 'v state \<Rightarrow> bool \<times> 'v state" where
  "validate_skill cfg st =
     (if \<not> path_exists (fs st) (skill_path cfg)
      then (False, print (PErrNotExist (skill_path cfg)) st)
      else if \<not> is_dir (fs st) (skill_path cfg)
      then (False, print (PErrNotDir (skill_path cfg)) st)
      else if \<not> path_exists (fs st) (join (skill_path cfg) ''SKILL.md'')
      then (False, print (PErrNoSkillMd (skill_path cfg)) st)
      else (True, st))"

section \<open>Converting the primary document\<close>

text \<open>
  The YAML library and the zip encoder are not part of the program; they are parameters.
  \<open>yaml_load\<close> gives the loaded document: a mapping, a value that Python takes for
  false (\<^verbatim>\<open>frontmatter or {}\<close> makes it the empty mapping), or another value, on which
  \<^verbatim>\<open>dict(frontmatter)\<close> raises.
\<close>

datatype 'v doc = Mapping "(string \<times> 'v) list" | Falsy | NonMapping

record 'v lib =
  yaml_load :: "string \<Rightarrow> exn + 'v doc"
  yaml_dump :: "(string \<times> 'v) list \<Rightarrow> string"
  zip_bytes :: "(path \<times> string) list \<Rightarrow> string"

text \<open>
  \<^verbatim>\<open>re.match(r'^---\n(.*?)\n---\n(.*)$', content, re.DOTALL)\<close>: the last group takes
  the rest of the content, so the match is decided by the part up to the closing marker,
  and the groups are cut from its length.
\<close>

definition frontmatter_re :: regex where
  "frontmatter_re =
     lits (''---'' @ [CHR 0x0A]) @ [(AnyChar, LazyStar)] @ lits ([CHR 0x0A] @ ''---'' @ [CHR 0x0A])"

definition parse_frontmatter :: "'v lib \<Rightarrow> string \<Rightarrow> exn + ('v doc \<times> string)" where
  "parse_frontmatter l content =
     (case rmatch frontmatter_re content of
        Some n \<Rightarrow>
          (case yaml_load l (take (n - 9) (drop 4 content)) of
             Inl e \<Rightarrow> Inl e
           | Inr Falsy \<Rightarrow> Inr (Mapping [], drop n content)
           | Inr frontmatter \<Rightarrow> Inr (frontmatter, drop n content))
      | None \<Rightarrow> Inr (Mapping [], content))"

definition marker :: string where
  "marker = ''---'' @ [CHR 0x0A]"

definition convert_skill_md :: "'v lib \<Rightarrow> config \<Rightarrow> path \<Rightarrow> 'v state \<Rightarrow> exn option \<times> 'v state" where
  "convert_skill_md l cfg out_dir st =
     (case read_text (fs st) (join (skill_path cfg) ''SKILL.md'') of
        Inl e \<Rightarrow> (Some e, st)
      | Inr content \<Rightarrow>
          (case parse_frontmatter l content of
             Inl e \<Rightarrow> (Some e, st)
           | Inr (Mapping frontmatter, body) \<Rightarrow>
               (let (cleaned_frontmatter, st1) = clean_frontmatter cfg frontmatter st;
                    (cleaned_body, st2) = clean_content cfg body st1;
                    new_content = marker @ yaml_dump l cleaned_frontmatter @ marker @ cleaned_body
                in if \<not> dry_run cfg
                   then (case write_file (fs st2) (join out_dir ''SKILL.md'') new_content of
                           Inl e \<Rightarrow> (Some e, st2)
                         | Inr fsys \<Rightarrow> (None, log cfg LogConverted (st2\<lparr>fs := fsys\<rparr>)))
                   else (None, log cfg LogConverted st2))
           | Inr (other, body) \<Rightarrow> (Some TypeError, st)))"

section \<open>Bundling the reference files\<close>

definition EXCLUDE_PATTERNS :: "string list" where
  "EXCLUDE_PATTERNS =
     [''scripts/'', ''*.pyc'', ''__pycache__/'', ''.DS_Store'', ''*.env'', ''*.key'', ''*.pem'']"

definition MAX_SINGLE_FILE :: nat where
  "MAX_SINGLE_FILE = 30 * 1024 * 1024"

definition WARN_TOTAL_SIZE :: nat where
  "WARN_TOTAL_SIZE = 10 * 1024 * 1024"

text \<open>
  \<^verbatim>\<open>fnmatch.fnmatch(name, pattern)\<close> for patterns of literal characters, \<^verbatim>\<open>*\<close> and
  \<^verbatim>\<open>?\<close> (none of the program's patterns has a bracket), on a case-sensitive system.
\<close>

fun fnmatch :: "string \<Rightarrow> string \<Rightarrow> bool" where
  "fnmatch [] name = (name = [])"
| "fnmatch (p # ps) name =
     (if p = CHR ''*''
      then fnmatch ps name \<or> (case name of [] \<Rightarrow> False | x # xs \<Rightarrow> fnmatch (p # ps) xs)
      else (case name of
              [] \<Rightarrow> False
            | x # xs \<Rightarrow> (p = CHR ''?'' \<or> x = p) \<and> fnmatch ps xs))"

fun exclude_by :: "string list \<Rightarrow> path \<Rightarrow> bool" where
  "exclude_by [] rel = False"
| "exclude_by (pattern # ps) rel =
     (if pattern \<noteq> [] \<and> last pattern = CHR ''/''
      then (if prefix (butlast pattern) (path_str rel) then True else exclude_by ps rel)
      else if CHR ''*'' \<in> set pattern
      then (if fnmatch pattern (path_name rel) then True else exclude_by ps rel)
      else (if path_str rel = pattern \<or> path_name rel = pattern then True
            else exclude_by ps rel))"

definition should_exclude :: "path \<Rightarrow> bool" where
  "should_exclude rel = exclude_by EXCLUDE_PATTERNS rel"

text \<open>
  The loop of \<^verbatim>\<open>bundle_references\<close> over the files that the walk yields, with the
  counters \<^verbatim>\<open>total_size\<close> and \<^verbatim>\<open>files_copied\<close>. The walk is taken when the loop starts,
  which is what the generator yields as long as the staging directory is not inside the
  walked tree.
\<close>

fun bundle_loop ::
  "config \<Rightarrow> path \<Rightarrow> (path \<times> string) list \<Rightarrow> nat \<Rightarrow> nat \<Rightarrow> 'v state
     \<Rightarrow> exn option \<times> nat \<times> nat \<times> 'v state"
where
  "bundle_loop cfg out_dir [] total_size files_copied st = (None, total_size, files_copied, st)"
| "bundle_loop cfg out_dir ((ref_file, content) # others) total_size files_copied st =
     (let rel_path = relative_to (skill_path cfg) ref_file;
          file_size = length content;
          dest = out_dir @ rel_path
      in if should_exclude rel_path
         then bundle_loop cfg out_dir others total_size files_copied (log cfg (LogExcluded rel_path) st)
         else if file_size > MAX_SINGLE_FILE
         then bundle_loop cfg out_dir others total_size files_copied
                (warn cfg (TooLarge file_size rel_path) st)
         else if \<not> dry_run cfg
         then (case mkdir_parents True (fs st) (butlast dest) of
                 Inl e \<Rightarrow> (Some e, total_size + file_size, files_copied, st)
               | Inr fs1 \<Rightarrow>
                   (case write_file fs1 dest content of
                      Inl e \<Rightarrow> (Some e, total_size + file_size, files_copied, st\<lparr>fs := fs1\<rparr>)
                    | Inr fs2 \<Rightarrow>
                        bundle_loop cfg out_dir others (total_size + file_size) (Suc files_copied)
                          (log cfg (LogBundled rel_path) (st\<lparr>fs := fs2\<rparr>))))
         else bundle_loop cfg out_dir others (total_size + file_size) (Suc files_copied)
                (log cfg (LogBundled rel_path) st))"

definition bundle_references :: "config \<Rightarrow> path \<Rightarrow> 'v state \<Rightarrow> exn option \<times> 'v state" where
  "bundle_references cfg out_dir st =
     (let refs_dir = join (skill_path cfg) ''references''
      in if \<not> path_exists (fs st) refs_dir then (None, log cfg LogNoReferences st)
         else (case bundle_loop cfg out_dir (files_under refs_dir (fs st)) 0 0 st of
                 (Some e, total_size, files_copied, st1) \<Rightarrow> (Some e, st1)
               | (None, total_size, files_copied, st1) \<Rightarrow>
                   (let st2 = (if total_size > WARN_TOTAL_SIZE
                               then warn cfg (TotalSize total_size) st1 else st1)
                    in (None, add_change (Bundled files_copied total_size) st2))))"

section \<open>The archive\<close>

text \<open>
  The entries that \<^verbatim>\<open>create_zip\<close> writes: every file below the skill directory of the
  staging directory, named by its path relative to the staging directory.
\<close>

definition archive_entries :: "config \<Rightarrow> path \<Rightarrow> filesys \<Rightarrow> (path \<times> string) list" where
  "archive_entries cfg temp_dir fsys =
     map (\<lambda>(file_path, content). (relative_to temp_dir file_path, content))
       (files_under (join temp_dir (skill_name cfg)) fsys)"

definition create_zip :: "'v lib \<Rightarrow> config \<Rightarrow> path \<Rightarrow> 'v state \<Rightarrow> (exn + path) \<times> 'v state" where
  "create_zip l cfg temp_dir st =
     (let zip_name = skill_name cfg @ ''.zip'';
          zip_path = join (output_dir cfg) zip_name
      in if dry_run cfg then (Inr zip_path, log cfg (LogWouldCreate zip_path) st)
         else (case (if path_exists (fs st) zip_path then unlink (fs st) zip_path
                     else Inr (fs st)) of
                 Inl e \<Rightarrow> (Inl e, st)
               | Inr fs1 \<Rightarrow>
                   (let data = zip_bytes l (archive_entries cfg temp_dir fs1)
                    in case write_file fs1 zip_path data of
                         Inl e \<Rightarrow> (Inl e, st\<lparr>fs := fs1\<rparr>)
                       | Inr fs2 \<Rightarrow>
                           (Inr zip_path,
                            add_change (CreatedZip zip_name (length data)) (st\<lparr>fs := fs2\<rparr>)))))"

section \<open>Report, conversion and the command line\<close>

definition report :: "config \<Rightarrow> 'v state \<Rightarrow> 'v state" where
  "report cfg st =
     (let st1 = st\<lparr>stdout := stdout st @ PChangesHeader # map PChange (changes st)\<rparr>;
          st2 = (if warnings st1 \<noteq> []
                 then st1\<lparr>stdout := stdout st1 @ PWarningsHeader (length (warnings st1))
                                        # map PWarn (warnings st1)\<rparr>
                 else st1)
      in if \<not> dry_run cfg
         then st2\<lparr>stdout := stdout st2
                     @ [POutput (join (output_dir cfg) (skill_name cfg @ ''.zip'')), PUpload]\<rparr>
         else st2)"

definition temp_dir_of :: "config \<Rightarrow> path" where
  "temp_dir_of cfg = join (output_dir cfg) (''.'' @ skill_name cfg @ ''_temp'')"

text \<open>The body of the \<^verbatim>\<open>try\<close> block of \<^verbatim>\<open>convert\<close>.\<close>

definition convert_try :: "'v lib \<Rightarrow> config \<Rightarrow> 'v state \<Rightarrow> (exn + path) \<times> 'v state" where
  "convert_try l cfg st =
     (let temp_dir = temp_dir_of cfg;
          converted_dir = join temp_dir (skill_name cfg)
      in case (if path_exists (fs st) temp_dir then rmtree (fs st) temp_dir else Inr (fs st)) of
           Inl e \<Rightarrow> (Inl e, st)
         | Inr fs1 \<Rightarrow>
             (case mkdir_parents False fs1 converted_dir of
                Inl e \<Rightarrow> (Inl e, st\<lparr>fs := fs1\<rparr>)
              | Inr fs2 \<Rightarrow>
                  (case convert_skill_md l cfg converted_dir (st\<lparr>fs := fs2\<rparr>) of
                     (Some e, st1) \<Rightarrow> (Inl e, st1)
                   | (None, st1) \<Rightarrow>
                       (case bundle_references cfg converted_dir st1 of
                          (Some e, st2) \<Rightarrow> (Inl e, st2)
                        | (None, st2) \<Rightarrow>
                            (case create_zip l cfg temp_dir st2 of
                               (Inl e, st3) \<Rightarrow> (Inl e, st3)
                             | (Inr zip_path, st3) \<Rightarrow> (Inr zip_path, report cfg st3))))))"

text \<open>
  What a call of \<^verbatim>\<open>convert\<close> does: it returns the path of the archive or \<^verbatim>\<open>None\<close>, or
  an exception leaves it (only the cleanup of the \<^verbatim>\<open>finally\<close> block can raise one
  that is not caught).
\<close>

datatype outcome = Returned "path option" | Raised exn

definition convert :: "'v lib \<Rightarrow> config \<Rightarrow> 'v state \<Rightarrow> outcome \<times> 'v state" where
  "convert l cfg st =
     (let st0 = print (PConverting (skill_name cfg)) st
      in case validate_skill cfg st0 of
           (False, st1) \<Rightarrow> (Returned None, st1)
         | (True, st1) \<Rightarrow>
             (let (result, st2) =
                    (case convert_try l cfg st1 of
                       (Inr zip_path, st2) \<Rightarrow> (Some zip_path, st2)
                     | (Inl e, st2) \<Rightarrow> (None, print (PErrConversion e) st2))
              in if path_exists (fs st2) (temp_dir_of cfg) \<and> \<not> dry_run cfg
                 then (case rmtree (fs st2) (temp_dir_of cfg) of
                         Inl e \<Rightarrow> (Raised e, st2)
                       | Inr fsys \<Rightarrow> (Returned result, st2\<lparr>fs := fsys\<rparr>))
                 else (Returned result, st2)))"

definition initial :: "filesys \<Rightarrow> 'v state" where
  "initial fsys = \<lparr>changes = [], warnings = [], stdout = [], fs = fsys\<rparr>"

text \<open>
  \<^verbatim>\<open>main\<close> after the arguments are parsed: the exit status and the final state. An
  exception that nothing catches ends the process with status 1.
\<close>

definition main :: "'v lib \<Rightarrow> config \<Rightarrow> filesys \<Rightarrow> nat \<times> 'v state" where
  "main l cfg fsys =
     (case mkdir_parents True fsys (output_dir cfg) of
        Inl e \<Rightarrow> (1, initial fsys)
      | Inr fs1 \<Rightarrow>
          (case convert l cfg (initial fs1) of
             (Returned (Some zip_path), st) \<Rightarrow> (0, print PSuccess st)
           | (Returned None, st) \<Rightarrow> (1, print PFailed st)
           | (Raised e, st) \<Rightarrow> (1, st)))"

section \<open>Verified claims\<close>

subsection \<open>Header cleaning\<close>

text \<open>
  C7. For a header that contains a restricted field (a key of \<open>REMOVE_YAML_FIELDS\<close>):
  when the keep flag is unset, the key is absent from the cleaned header, every other key
  keeps its value, and the change log grows by exactly the removal entry carrying the
  removed value; when the keep flag is set, the header is returned as it is and the
  change log is unchanged.
\<close>

theorem clean_frontmatter_restricted_field:
  assumes "field \<in> set REMOVE_YAML_FIELDS" and "map_of frontmatter field = Some v"
  shows "(\<not> keep_tools cfg \<longrightarrow>
            map_of (fst (clean_frontmatter cfg frontmatter st)) field = None
          \<and> (\<forall>k. k \<noteq> field \<longrightarrow>
                 map_of (fst (clean_frontmatter cfg frontmatter st)) k = map_of frontmatter k)
          \<and> changes (snd (clean_frontmatter cfg frontmatter st))
              = changes st @ [RemovedField field v])
       \<and> (keep_tools cfg \<longrightarrow>
            fst (clean_frontmatter cfg frontmatter st) = frontmatter
          \<and> changes (snd (clean_frontmatter cfg frontmatter st)) = changes st)"
  using assms
  by (simp add: clean_frontmatter_def REMOVE_YAML_FIELDS_def log_def add_change_def
        print_def AList.delete_conv)

theorem clean_frontmatter_restricted_field_witness:
  "''allowed-tools'' \<in> set REMOVE_YAML_FIELDS
   \<and> map_of (fst (clean_frontmatter \<lparr>skill_path = [''demo''], output_dir = [''out''], verbose = False,
        dry_run = False, keep_tools = False, inline_refs = False\<rparr>
        [(''allowed-tools'', True), (''title'', False)]
        \<lparr>changes = [], warnings = [], stdout = [], fs = []\<rparr>)) ''allowed-tools'' = None
   \<and> changes (snd (clean_frontmatter \<lparr>skill_path = [''demo''], output_dir = [''out''], verbose = False,
        dry_run = False, keep_tools = False, inline_refs = False\<rparr>
        [(''allowed-tools'', True), (''title'', False)]
        \<lparr>changes = [], warnings = [], stdout = [], fs = []\<rparr>)) = [RemovedField ''allowed-tools'' True]"
  using clean_frontmatter_restricted_field [of "''allowed-tools''" "[(''allowed-tools'', True), (''title'', False)]" True
     "\<lparr>skill_path = [''demo''], output_dir = [''out''], verbose = False,
        dry_run = False, keep_tools = False, inline_refs = False\<rparr>"
     "\<lparr>changes = [], warnings = [], stdout = [], fs = []\<rparr>"]
  by (simp add: REMOVE_YAML_FIELDS_def)

end
